theory Spec2Isabelle
  imports Complex_Main
begin

section \<open>Backend/server.py: configuration and data model\<close>

text \<open>
  Instants are whole seconds on the UTC clock (the granularity of a JWT \<open>exp\<close> claim and of
  SQLite's \<open>CURRENT_TIMESTAMP\<close>). Every handler reads the clock; the reading is the
  argument \<open>now\<close>.
\<close>

type_synonym time = int

definition SECRET_KEY :: string where
  "SECRET_KEY = ''fifa-2026-secret-key-change-in-production''"

definition ALGORITHM :: string where
  "ALGORITHM = ''HS256''"

definition ACCESS_TOKEN_EXPIRE_MINUTES :: int where
  "ACCESS_TOKEN_EXPIRE_MINUTES = 60 * 24 * 7"

text \<open>
  Library functions whose results the code only stores and compares:
  \<open>hashlib.md5(..).hexdigest()\<close>, \<open>hashlib.sha256(..).hexdigest()\<close>, \<open>str\<close> of a
  \<open>datetime\<close>, and \<open>int\<close> of a \<open>str\<close> (\<open>None\<close> where Python raises \<open>ValueError\<close>).
  They are parameters of the model; nothing is assumed about them unless a theorem says so.
\<close>

record lib =
  md5 :: "string \<Rightarrow> string"
  sha256 :: "string \<Rightarrow> string"
  str_datetime :: "time \<Rightarrow> string"
  int_of_str :: "string \<Rightarrow> int option"

text \<open>What the code can raise: an \<open>HTTPException\<close> with status code and detail, or one of
  Python's exceptions (which, when no handler catches it, the client sees as a 500).\<close>

datatype error =
    HTTPException nat string
  | IntegrityError
  | JSONDecodeError
  | KeyError
  | IndexError
  | TypeError
  | AttributeError
  | ValueError
  | ZeroDivisionError
  | RequestException
  | HTTPError

text \<open>The three tables of \<open>init_database\<close>; a table is the list of its rows in insertion order.\<close>

record user_row =
  u_user_id :: string
  u_email :: string
  u_password_hash :: string
  u_full_name :: "string option"
  u_created_at :: time

record schedule_row =
  s_schedule_id :: string
  s_user_id :: string
  s_schedule_name :: string
  s_match_ids :: string
  s_created_at :: time
  s_updated_at :: time

record push_row =
  p_user_id :: string
  p_device_token :: string
  p_updated_at :: time

record db =
  users :: "user_row list"
  schedules :: "schedule_row list"
  push_tokens :: "push_row list"

definition init_database :: db where
  "init_database = \<lparr>users = [], schedules = [], push_tokens = []\<rparr>"

text \<open>The pydantic models.\<close>

record UserRegister =
  email :: string
  password :: string
  full_name :: "string option"

record UserLogin =
  login_email :: string
  login_password :: string

record Schedule =
  schedule_id :: "string option"
  schedule_name :: string
  match_ids :: "int list"

record PushToken =
  device_token :: string

subsection \<open>Tokens\<close>

text \<open>
  Modelled from the spec: the \<open>jwt\<close> library is not part of the repository. A token is
  either a string that does not decode, or a set of claims together with the algorithm and
  the key it was signed with (the signature is ideal: it verifies under exactly that key).
  \<open>jwt_decode\<close> checks the algorithm, then the signature, then the expiry
  (\<open>expires_at > now\<close>, as the spec puts it).
\<close>

record claims =
  c_sub :: "string option"
  c_exp :: "time option"

datatype token =
    Undecodable string
  | Signed string string claims

datatype jwt_error =
    ExpiredSignatureError
  | InvalidSignatureError
  | InvalidAlgorithmError
  | DecodeError

definition jwt_encode :: "claims \<Rightarrow> string \<Rightarrow> string \<Rightarrow> token" where
  "jwt_encode payload key algorithm = Signed algorithm key payload"

definition jwt_decode :: "token \<Rightarrow> string \<Rightarrow> string list \<Rightarrow> time \<Rightarrow> jwt_error + claims" where
  "jwt_decode tok key algorithms now =
     (case tok of
        Undecodable _ \<Rightarrow> Inl DecodeError
      | Signed alg k payload \<Rightarrow>
          if alg \<notin> set algorithms then Inl InvalidAlgorithmError
          else if k \<noteq> key then Inl InvalidSignatureError
          else (case c_exp payload of
                  None \<Rightarrow> Inr payload
                | Some e \<Rightarrow> if e \<le> now then Inl ExpiredSignatureError else Inr payload))"

record Token =
  access_token :: token
  token_type :: string
  user_id :: string

definition hash_password :: "lib \<Rightarrow> string \<Rightarrow> string" where
  "hash_password L pw = sha256 L pw"

definition create_access_token :: "time \<Rightarrow> string \<Rightarrow> token" where
  "create_access_token now uid =
     (let expire = now + ACCESS_TOKEN_EXPIRE_MINUTES * 60;
          to_encode = \<lparr>c_sub = Some uid, c_exp = Some expire\<rparr>
      in jwt_encode to_encode SECRET_KEY ALGORITHM)"

text \<open>\<open>except jwt.ExpiredSignatureError\<close> gives "Token expired"; every other decoding error is
  taken by the \<open>except jwt.JWTError\<close> clause and gives "Invalid token".\<close>

definition verify_token :: "time \<Rightarrow> token \<Rightarrow> error + string" where
  "verify_token now tok =
     (case jwt_decode tok SECRET_KEY [ALGORITHM] now of
        Inr payload \<Rightarrow>
          (case c_sub payload of
             None \<Rightarrow> Inl (HTTPException 401 ''Invalid token'')
           | Some uid \<Rightarrow> Inr uid)
      | Inl ExpiredSignatureError \<Rightarrow> Inl (HTTPException 401 ''Token expired'')
      | Inl _ \<Rightarrow> Inl (HTTPException 401 ''Invalid token''))"

subsection \<open>The \<open>match_ids\<close> column: \<open>json.dumps\<close> and \<open>json.loads\<close> on lists of integers\<close>

text \<open>
  \<open>json.dumps\<close> of a list of Python integers writes the decimal numerals between brackets,
  separated by a comma and a space. \<open>json_loads\<close> reads back exactly the texts of that
  form, which are the only ones \<open>create_schedule\<close> ever stores; any other text is reported
  as \<open>JSONDecodeError\<close>.
\<close>

definition is_digit :: "char \<Rightarrow> bool" where
  "is_digit c = (48 \<le> (of_char c :: nat) \<and> (of_char c :: nat) \<le> 57)"

function str_nat :: "nat \<Rightarrow> string" where
  "str_nat n =
     (if n < 10 then [char_of (48 + n)]
      else str_nat (n div 10) @ [char_of (48 + n mod 10)])"
  by pat_completeness auto
termination
  by (relation "measure (\<lambda>n. n)") auto

declare str_nat.simps [simp del]

definition str_int :: "int \<Rightarrow> string" where
  "str_int i = (if i < 0 then CHR ''-'' # str_nat (nat (- i)) else str_nat (nat i))"

fun join :: "string \<Rightarrow> string list \<Rightarrow> string" where
  "join sep [] = []"
| "join sep [x] = x"
| "join sep (x # y # ys) = x @ sep @ join sep (y # ys)"

definition json_dumps :: "int list \<Rightarrow> string" where
  "json_dumps xs = ''['' @ join '', '' (map str_int xs) @ '']''"

definition nat_of_digits :: "string \<Rightarrow> nat" where
  "nat_of_digits ds = foldl (\<lambda>acc c. 10 * acc + (of_char c - 48)) 0 ds"

definition parse_int :: "string \<Rightarrow> (int \<times> string) option" where
  "parse_int s =
     (case s of
        [] \<Rightarrow> None
      | c # r \<Rightarrow>
          if c = CHR ''-'' then
            (if takeWhile is_digit r = [] then None
             else Some (- int (nat_of_digits (takeWhile is_digit r)), dropWhile is_digit r))
          else
            (if takeWhile is_digit s = [] then None
             else Some (int (nat_of_digits (takeWhile is_digit s)), dropWhile is_digit s)))"

function parse_elems :: "string \<Rightarrow> int list option" where
  "parse_elems s =
     (case parse_int s of
        None \<Rightarrow> None
      | Some (i, r) \<Rightarrow>
          if r = '']'' then Some [i]
          else if take 2 r = '', '' then map_option ((#) i) (parse_elems (drop 2 r))
          else None)"
  by pat_completeness auto
termination
proof (relation "measure length", goal_cases)
  case 1
  show ?case by simp
next
  case (2 s x i r)
  have le: "length (dropWhile is_digit u) \<le> length u" for u
    by (rule length_dropWhile_le)
  from 2 have "parse_int s = Some (i, r)" by simp
  then have "length r \<le> length s"
    using le [of s] le [of "tl s"]
    by (auto simp: parse_int_def split: list.splits if_splits)
  moreover from 2 have "r \<noteq> []" by auto
  ultimately have "length (drop 2 r) < length s"
    by (cases r) auto
  then show ?case by simp
qed

declare parse_elems.simps [simp del]

definition json_loads :: "string \<Rightarrow> error + int list" where
  "json_loads s =
     (case s of
        [] \<Rightarrow> Inl JSONDecodeError
      | c # r \<Rightarrow>
          if c \<noteq> CHR ''['' then Inl JSONDecodeError
          else if r = '']'' then Inr []
          else (case parse_elems r of None \<Rightarrow> Inl JSONDecodeError | Some xs \<Rightarrow> Inr xs))"

subsection \<open>SQL statements\<close>

text \<open>
  \<open>users.user_id\<close> is the primary key and \<open>users.email\<close> is \<open>UNIQUE\<close>: an \<open>INSERT\<close> that
  repeats either raises \<open>sqlite3.IntegrityError\<close>. The same holds for
  \<open>schedules.schedule_id\<close>. \<open>INSERT OR REPLACE\<close> on \<open>push_tokens\<close> first deletes the row
  with the same primary key \<open>user_id\<close>.
\<close>

definition insert_user :: "user_row \<Rightarrow> user_row list \<Rightarrow> error + user_row list" where
  "insert_user row rows =
     (if \<exists>r \<in> set rows. u_user_id r = u_user_id row \<or> u_email r = u_email row
      then Inl IntegrityError else Inr (rows @ [row]))"

definition insert_schedule :: "schedule_row \<Rightarrow> schedule_row list \<Rightarrow> error + schedule_row list" where
  "insert_schedule row rows =
     (if \<exists>r \<in> set rows. s_schedule_id r = s_schedule_id row
      then Inl IntegrityError else Inr (rows @ [row]))"

definition insert_or_replace_push_token :: "push_row \<Rightarrow> push_row list \<Rightarrow> push_row list" where
  "insert_or_replace_push_token row rows =
     filter (\<lambda>r. p_user_id r \<noteq> p_user_id row) rows @ [row]"

subsection \<open>Authentication endpoints\<close>

definition register :: "lib \<Rightarrow> time \<Rightarrow> UserRegister \<Rightarrow> db \<Rightarrow> db \<times> (error + Token)" where
  "register L now user d =
     (case find (\<lambda>r. u_email r = email user) (users d) of
        Some _ \<Rightarrow> (d, Inl (HTTPException 400 ''Email already registered''))
      | None \<Rightarrow>
          (let uid = md5 L (email user);
               password_hash = hash_password L (password user)
           in case insert_user
                     \<lparr>u_user_id = uid, u_email = email user, u_password_hash = password_hash,
                      u_full_name = full_name user, u_created_at = now\<rparr> (users d) of
                Inl e \<Rightarrow> (d, Inl e)
              | Inr rows \<Rightarrow>
                  (d\<lparr>users := rows\<rparr>,
                   Inr \<lparr>access_token = create_access_token now uid,
                        token_type = ''bearer'', user_id = uid\<rparr>)))"

definition login :: "lib \<Rightarrow> time \<Rightarrow> UserLogin \<Rightarrow> db \<Rightarrow> error + Token" where
  "login L now user d =
     (let password_hash = hash_password L (login_password user);
          result = find (\<lambda>r. u_email r = login_email user \<and> u_password_hash r = password_hash)
                     (users d)
      in case result of
           None \<Rightarrow> Inl (HTTPException 401 ''Invalid email or password'')
         | Some row \<Rightarrow>
             (let uid = u_user_id row
              in Inr \<lparr>access_token = create_access_token now uid,
                      token_type = ''bearer'', user_id = uid\<rparr>))"

subsection \<open>Schedule endpoints\<close>

definition create_schedule ::
  "lib \<Rightarrow> time \<Rightarrow> Schedule \<Rightarrow> token \<Rightarrow> db \<Rightarrow> db \<times> (error + Schedule)" where
  "create_schedule L now schedule tok d =
     (case verify_token now tok of
        Inl e \<Rightarrow> (d, Inl e)
      | Inr uid \<Rightarrow>
          (let sid = md5 L (uid @ str_datetime L now);
               match_ids_json = json_dumps (match_ids schedule)
           in case insert_schedule
                     \<lparr>s_schedule_id = sid, s_user_id = uid,
                      s_schedule_name = schedule_name schedule, s_match_ids = match_ids_json,
                      s_created_at = now, s_updated_at = now\<rparr> (schedules d) of
                Inl e \<Rightarrow> (d, Inl e)
              | Inr rows \<Rightarrow>
                  (d\<lparr>schedules := rows\<rparr>,
                   Inr \<lparr>schedule_id = Some sid, schedule_name = schedule_name schedule,
                        match_ids = match_ids schedule\<rparr>)))"

record schedule_entry =
  e_schedule_id :: string
  e_schedule_name :: string
  e_match_ids :: "int list"
  e_created_at :: time
  e_updated_at :: time

record UserSchedules =
  us_user_id :: string
  us_schedules :: "schedule_entry list"

text \<open>The loop over \<open>cursor.fetchall()\<close>: the first row whose text does not decode raises.\<close>

fun fetch_schedules :: "schedule_row list \<Rightarrow> error + schedule_entry list" where
  "fetch_schedules [] = Inr []"
| "fetch_schedules (row # rows) =
     (case json_loads (s_match_ids row) of
        Inl e \<Rightarrow> Inl e
      | Inr ids \<Rightarrow>
          (case fetch_schedules rows of
             Inl e \<Rightarrow> Inl e
           | Inr es \<Rightarrow>
               Inr (\<lparr>e_schedule_id = s_schedule_id row, e_schedule_name = s_schedule_name row,
                     e_match_ids = ids, e_created_at = s_created_at row,
                     e_updated_at = s_updated_at row\<rparr> # es)))"

definition get_user_schedules :: "time \<Rightarrow> string \<Rightarrow> token \<Rightarrow> db \<Rightarrow> error + UserSchedules" where
  "get_user_schedules now uid tok d =
     (case verify_token now tok of
        Inl e \<Rightarrow> Inl e
      | Inr _ \<Rightarrow>
          (case fetch_schedules (filter (\<lambda>r. s_user_id r = uid) (schedules d)) of
             Inl e \<Rightarrow> Inl e
           | Inr es \<Rightarrow> Inr \<lparr>us_user_id = uid, us_schedules = es\<rparr>))"

text \<open>The \<open>DELETE\<close> is committed before \<open>rowcount\<close> is looked at.\<close>

definition delete_schedule :: "time \<Rightarrow> string \<Rightarrow> token \<Rightarrow> db \<Rightarrow> db \<times> (error + string)" where
  "delete_schedule now sid tok d =
     (case verify_token now tok of
        Inl e \<Rightarrow> (d, Inl e)
      | Inr uid \<Rightarrow>
          (let remaining = filter (\<lambda>r. \<not> (s_schedule_id r = sid \<and> s_user_id r = uid)) (schedules d);
               rowcount = length (schedules d) - length remaining;
               d' = d\<lparr>schedules := remaining\<rparr>
           in if rowcount = 0 then (d', Inl (HTTPException 404 ''Schedule not found''))
              else (d', Inr ''Schedule deleted successfully'')))"

subsection \<open>Push notification endpoint\<close>

definition register_push_token :: "time \<Rightarrow> PushToken \<Rightarrow> token \<Rightarrow> db \<Rightarrow> db \<times> (error + string)" where
  "register_push_token now push_token tok d =
     (case verify_token now tok of
        Inl e \<Rightarrow> (d, Inl e)
      | Inr uid \<Rightarrow>
          (d\<lparr>push_tokens :=
                insert_or_replace_push_token
                  \<lparr>p_user_id = uid, p_device_token = device_token push_token, p_updated_at = now\<rparr>
                  (push_tokens d)\<rparr>,
           Inr ''Push token registered successfully''))"

subsection \<open>The application as a state machine\<close>

text \<open>Requests are served one at a time; each leaves the database in a new state.\<close>

datatype request =
    Register UserRegister
  | Login UserLogin
  | CreateSchedule Schedule token
  | GetUserSchedules string token
  | DeleteSchedule string token
  | RegisterPushToken PushToken token

fun serve :: "lib \<Rightarrow> time \<Rightarrow> request \<Rightarrow> db \<Rightarrow> db" where
  "serve L now (Register user) d = fst (register L now user d)"
| "serve L now (Login user) d = d"
| "serve L now (CreateSchedule schedule tok) d = fst (create_schedule L now schedule tok d)"
| "serve L now (GetUserSchedules uid tok) d = d"
| "serve L now (DeleteSchedule sid tok) d = fst (delete_schedule now sid tok d)"
| "serve L now (RegisterPushToken push_token tok) d = fst (register_push_token now push_token tok d)"

fun run :: "lib \<Rightarrow> (time \<times> request) list \<Rightarrow> db \<Rightarrow> db" where
  "run L [] d = d"
| "run L ((now, rq) # rest) d = run L rest (serve L now rq d)"

text \<open>The constraints the schema declares, and that every stored \<open>match_ids\<close> text decodes.\<close>

definition db_ok :: "db \<Rightarrow> bool" where
  "db_ok d =
     (distinct (map u_user_id (users d)) \<and> distinct (map u_email (users d))
      \<and> distinct (map s_schedule_id (schedules d))
      \<and> distinct (map p_user_id (push_tokens d))
      \<and> list_all (\<lambda>r. \<not> isl (json_loads (s_match_ids r))) (schedules d))"

subsection \<open>The route table\<close>

text \<open>One entry per \<open>@app\<close> decorator, in source order: method, path template, handler.
  A template segment in braces matches any non-empty segment.\<close>

datatype http_method = GET | POST | DELETE

definition routes :: "(http_method \<times> string \<times> string) list" where
  "routes =
     [(GET, ''/'', ''root''),
      (GET, ''/health'', ''health_check''),
      (POST, ''/api/auth/register'', ''register''),
      (POST, ''/api/auth/login'', ''login''),
      (GET, ''/api/matches'', ''get_matches''),
      (GET, ''/api/matches/{match_id}'', ''get_match''),
      (GET, ''/api/matches/stadium/{stadium_id}'', ''get_matches_by_stadium''),
      (GET, ''/api/stadiums'', ''get_stadiums''),
      (GET, ''/api/stadiums/{stadium_id}'', ''get_stadium''),
      (POST, ''/api/schedules'', ''create_schedule''),
      (GET, ''/api/schedules/{user_id}'', ''get_user_schedules''),
      (DELETE, ''/api/schedules/{schedule_id}'', ''delete_schedule''),
      (POST, ''/api/notifications/register'', ''register_push_token''),
      (GET, ''/api/crowds/{stadium_id}'', ''get_crowd_data''),
      (GET, ''/api/weather/{stadium_id}'', ''get_weather'')]"

fun split_on :: "char \<Rightarrow> string \<Rightarrow> string list" where
  "split_on sep [] = [[]]"
| "split_on sep (c # cs) =
     (if c = sep then [] # split_on sep cs
      else (case split_on sep cs of
              [] \<Rightarrow> [[c]]
            | seg # segs \<Rightarrow> (c # seg) # segs))"

definition segment_matches :: "string \<Rightarrow> string \<Rightarrow> bool" where
  "segment_matches pat seg =
     (case pat of
        [] \<Rightarrow> seg = []
      | c # _ \<Rightarrow> if c = CHR ''{'' then seg \<noteq> [] else pat = seg)"

definition path_matches :: "string \<Rightarrow> string \<Rightarrow> bool" where
  "path_matches pat path =
     list_all2 segment_matches (split_on CHR ''/'' pat) (split_on CHR ''/'' path)"

definition resolve :: "http_method \<Rightarrow> string \<Rightarrow> string option" where
  "resolve m path =
     map_option (\<lambda>(_, _, handler). handler)
       (find (\<lambda>(m', pat, _). m' = m \<and> path_matches pat path) routes)"

section \<open>Backend/traffic_service.py and Backend/weather_service.py\<close>

subsection \<open>What a provider answers\<close>

text \<open>
  A decoded JSON document, as \<open>response.json()\<close> returns it. Numbers are exact rationals
  (floating-point rounding is not modelled); a \<open>JObj\<close> lists the items of the dict.
\<close>

datatype json =
    JNull
  | JBool bool
  | JNum rat
  | JStr string
  | JArr "json list"
  | JObj "(string \<times> json) list"

text \<open>\<open>requests.get\<close> either raises (connection error, timeout) or returns a response with a
  status code and a body, which may or may not be a JSON document.\<close>

datatype http_result =
    RequestFailed
  | Response nat "json option"

definition and_then :: "error + 'a \<Rightarrow> ('a \<Rightarrow> error + 'b) \<Rightarrow> error + 'b" where
  "and_then r f = (case r of Inl e \<Rightarrow> Inl e | Inr x \<Rightarrow> f x)"

text \<open>\<open>response.raise_for_status()\<close> followed by \<open>response.json()\<close>.\<close>

definition response_json :: "http_result \<Rightarrow> error + json" where
  "response_json result =
     (case result of
        RequestFailed \<Rightarrow> Inl RequestException
      | Response status_code body \<Rightarrow>
          if 400 \<le> status_code \<and> status_code < 600 then Inl HTTPError
          else (case body of None \<Rightarrow> Inl JSONDecodeError | Some data \<Rightarrow> Inr data))"

text \<open>\<open>obj[key]\<close> for a string key, \<open>obj[0]\<close>, \<open>obj.get(key, default)\<close>, truth value.\<close>

fun subscript :: "json \<Rightarrow> string \<Rightarrow> error + json" where
  "subscript (JObj items) k = (case map_of items k of None \<Rightarrow> Inl KeyError | Some v \<Rightarrow> Inr v)"
| "subscript _ k = Inl TypeError"

fun item0 :: "json \<Rightarrow> error + json" where
  "item0 (JArr []) = Inl IndexError"
| "item0 (JArr (x # _)) = Inr x"
| "item0 (JStr []) = Inl IndexError"
| "item0 (JStr (c # _)) = Inr (JStr [c])"
| "item0 (JObj _) = Inl KeyError"
| "item0 _ = Inl TypeError"

fun dict_get :: "json \<Rightarrow> string \<Rightarrow> json \<Rightarrow> error + json" where
  "dict_get (JObj items) k dflt = Inr (case map_of items k of None \<Rightarrow> dflt | Some v \<Rightarrow> v)"
| "dict_get _ k dflt = Inl AttributeError"

fun truthy :: "json \<Rightarrow> bool" where
  "truthy JNull = False"
| "truthy (JBool b) = b"
| "truthy (JNum x) = (x \<noteq> 0)"
| "truthy (JStr s) = (s \<noteq> [])"
| "truthy (JArr xs) = (xs \<noteq> [])"
| "truthy (JObj items) = (items \<noteq> [])"

text \<open>Arithmetic and comparison accept numbers (and booleans, which are integers in Python)
  and raise \<open>TypeError\<close> on anything else.\<close>

fun as_number :: "json \<Rightarrow> error + rat" where
  "as_number (JNum x) = Inr x"
| "as_number (JBool b) = Inr (if b then 1 else 0)"
| "as_number _ = Inl TypeError"

definition py_truediv :: "rat \<Rightarrow> rat \<Rightarrow> error + rat" where
  "py_truediv a b = (if b = 0 then Inl ZeroDivisionError else Inr (a / b))"

text \<open>\<open>round(x)\<close> rounds half to even; \<open>round(x, 1)\<close> does so at the first decimal.\<close>

definition py_round :: "rat \<Rightarrow> int" where
  "py_round x =
     (let f = \<lfloor>x\<rfloor>; r = x - of_int f
      in if r < 1 / 2 then f else if 1 / 2 < r then f + 1 else if even f then f else f + 1)"

definition py_round1 :: "rat \<Rightarrow> rat" where
  "py_round1 x = of_int (py_round (x * 10)) / 10"

text \<open>\<open>int(x)\<close>: truncation towards zero for a number.\<close>

fun py_int :: "lib \<Rightarrow> json \<Rightarrow> error + int" where
  "py_int L (JNum x) = Inr (if 0 \<le> x then \<lfloor>x\<rfloor> else \<lceil>x\<rceil>)"
| "py_int L (JBool b) = Inr (if b then 1 else 0)"
| "py_int L (JStr s) = (case int_of_str L s of None \<Rightarrow> Inl ValueError | Some i \<Rightarrow> Inr i)"
| "py_int L _ = Inl TypeError"

subsection \<open>TrafficService\<close>

record traffic_data =
  t_distance_meters :: json
  t_distance_miles :: rat
  t_duration_seconds :: json
  t_duration_minutes :: int
  t_duration_in_traffic_seconds :: json
  t_duration_in_traffic_minutes :: int
  t_traffic_level :: string
  t_traffic_delay_minutes :: int
  t_mode :: string
  t_updated_at :: time

definition mock_traffic_data :: "time \<Rightarrow> traffic_data" where
  "mock_traffic_data now =
     \<lparr>t_distance_meters = JNum 15000, t_distance_miles = 9.3,
      t_duration_seconds = JNum 1200, t_duration_minutes = 20,
      t_duration_in_traffic_seconds = JNum 1500, t_duration_in_traffic_minutes = 25,
      t_traffic_level = ''moderate'', t_traffic_delay_minutes = 5,
      t_mode = ''driving'', t_updated_at = now\<rparr>"

text \<open>\<open>duration_in_traffic / duration if duration > 0 else 1.0\<close>\<close>

definition traffic_ratio :: "json \<Rightarrow> json \<Rightarrow> error + rat" where
  "traffic_ratio duration_in_traffic duration =
     and_then (as_number duration) (\<lambda>d.
       if d > 0 then and_then (as_number duration_in_traffic) (\<lambda>dt. py_truediv dt d)
       else Inr 1.0)"

definition traffic_level_of :: "rat \<Rightarrow> string" where
  "traffic_level_of ratio =
     (if ratio < 1.1 then ''light'' else if ratio < 1.3 then ''moderate'' else ''heavy'')"

text \<open>The body of \<open>if element["status"] == "OK":\<close>\<close>

definition element_data :: "time \<Rightarrow> string \<Rightarrow> json \<Rightarrow> error + traffic_data" where
  "element_data now mode element =
     and_then (subscript element ''duration'') (\<lambda>dur.
     and_then (subscript dur ''value'') (\<lambda>duration.
     and_then (dict_get element ''duration_in_traffic'' (JObj [])) (\<lambda>dit.
     and_then (dict_get dit ''value'' duration) (\<lambda>duration_in_traffic.
     and_then (subscript element ''distance'') (\<lambda>dist.
     and_then (subscript dist ''value'') (\<lambda>distance.
     and_then (traffic_ratio duration_in_traffic duration) (\<lambda>ratio.
     and_then (as_number distance) (\<lambda>m.
     and_then (as_number duration) (\<lambda>d.
     and_then (as_number duration_in_traffic) (\<lambda>dt.
       Inr \<lparr>t_distance_meters = distance,
            t_distance_miles = py_round1 (m * 0.000621371),
            t_duration_seconds = duration,
            t_duration_minutes = py_round (d / 60),
            t_duration_in_traffic_seconds = duration_in_traffic,
            t_duration_in_traffic_minutes = py_round (dt / 60),
            t_traffic_level = traffic_level_of ratio,
            t_traffic_delay_minutes = py_round ((dt - d) / 60),
            t_mode = mode, t_updated_at = now\<rparr>))))))))))"

text \<open>The body of the \<open>try\<close>.\<close>

definition travel_time_try :: "time \<Rightarrow> string \<Rightarrow> http_result \<Rightarrow> error + traffic_data" where
  "travel_time_try now mode result =
     and_then (response_json result) (\<lambda>data.
     and_then (subscript data ''status'') (\<lambda>status.
     and_then (if status = JStr ''OK'' then and_then (subscript data ''rows'') (\<lambda>rows. Inr (truthy rows))
               else Inr False) (\<lambda>ok.
       if ok then
         and_then (subscript data ''rows'') (\<lambda>rows.
         and_then (item0 rows) (\<lambda>row.
         and_then (subscript row ''elements'') (\<lambda>elements.
         and_then (item0 elements) (\<lambda>element.
         and_then (subscript element ''status'') (\<lambda>element_status.
           if element_status = JStr ''OK'' then element_data now mode element
           else Inr (mock_traffic_data now))))))
       else Inr (mock_traffic_data now))))"

text \<open>The provider is the outside world: what \<open>requests.get\<close> gives for the coordinates, the
  mode and the key.\<close>

type_synonym traffic_provider = "rat \<times> rat \<Rightarrow> rat \<times> rat \<Rightarrow> string \<Rightarrow> string \<Rightarrow> http_result"

definition get_travel_time ::
  "string \<Rightarrow> traffic_provider \<Rightarrow> time \<Rightarrow> rat \<Rightarrow> rat \<Rightarrow> rat \<Rightarrow> rat \<Rightarrow> string
   \<Rightarrow> error + traffic_data" where
  "get_travel_time api_key provider now origin_lat origin_lon dest_lat dest_lon mode =
     (if api_key = [] then Inr (mock_traffic_data now)
      else
        (case travel_time_try now mode
                (provider (origin_lat, origin_lon) (dest_lat, dest_lon) mode api_key) of
           Inr data \<Rightarrow> Inr data
         | Inl e \<Rightarrow> Inr (mock_traffic_data now)))"

subsection \<open>WeatherService\<close>

record weather_data =
  w_temperature :: int
  w_temperature_unit :: string
  w_condition :: json
  w_description :: json
  w_precipitation_chance :: int
  w_humidity :: json
  w_wind_speed :: int
  w_feels_like :: int
  w_updated_at :: time

definition mock_weather_data :: "time \<Rightarrow> weather_data" where
  "mock_weather_data now =
     \<lparr>w_temperature = 72, w_temperature_unit = ''F'',
      w_condition = JStr ''Partly Cloudy'', w_description = JStr ''partly cloudy'',
      w_precipitation_chance = 20, w_humidity = JNum 65, w_wind_speed = 8,
      w_feels_like = 70, w_updated_at = now\<rparr>"

definition current_weather_try :: "lib \<Rightarrow> time \<Rightarrow> http_result \<Rightarrow> error + weather_data" where
  "current_weather_try L now result =
     and_then (response_json result) (\<lambda>data.
     and_then (subscript data ''main'') (\<lambda>main.
     and_then (subscript main ''temp'') (\<lambda>temp.
     and_then (py_int L temp) (\<lambda>temperature.
     and_then (subscript data ''weather'') (\<lambda>weather.
     and_then (item0 weather) (\<lambda>weather0.
     and_then (subscript weather0 ''main'') (\<lambda>condition.
     and_then (subscript weather0 ''description'') (\<lambda>description.
     and_then (subscript main ''humidity'') (\<lambda>humidity.
     and_then (subscript data ''wind'') (\<lambda>wind.
     and_then (subscript wind ''speed'') (\<lambda>speed.
     and_then (py_int L speed) (\<lambda>wind_speed.
     and_then (subscript main ''feels_like'') (\<lambda>fl.
     and_then (py_int L fl) (\<lambda>feels_like.
       Inr \<lparr>w_temperature = temperature, w_temperature_unit = ''F'',
            w_condition = condition, w_description = description,
            w_precipitation_chance = 0, w_humidity = humidity,
            w_wind_speed = wind_speed, w_feels_like = feels_like,
            w_updated_at = now\<rparr>))))))))))))))"

type_synonym weather_provider = "rat \<times> rat \<Rightarrow> string \<Rightarrow> http_result"

definition get_current_weather ::
  "lib \<Rightarrow> string \<Rightarrow> weather_provider \<Rightarrow> time \<Rightarrow> rat \<Rightarrow> rat \<Rightarrow> error + weather_data" where
  "get_current_weather L api_key provider now lat lon =
     (if api_key = [] then Inr (mock_weather_data now)
      else
        (case current_weather_try L now (provider (lat, lon) api_key) of
           Inr data \<Rightarrow> Inr data
         | Inl e \<Rightarrow> Inr (mock_weather_data now)))"

section \<open>Predicates used to state the properties\<close>

text \<open>Entry \<open>e\<close> of a listing shows row \<open>r\<close>: same id, name and stamps, and the match
  references are what the stored text decodes to.\<close>

definition shows_row :: "schedule_row \<Rightarrow> schedule_entry \<Rightarrow> bool" where
  "shows_row r e =
     (e_schedule_id e = s_schedule_id r \<and> e_schedule_name e = s_schedule_name r
      \<and> json_loads (s_match_ids r) = Inr (e_match_ids e)
      \<and> e_created_at e = s_created_at r \<and> e_updated_at e = s_updated_at r)"

text \<open>The provider is unconfigured (no API key), unreachable, answers with an error status,
  or answers with a body that is not JSON.\<close>

definition provider_fails :: "string \<Rightarrow> http_result \<Rightarrow> bool" where
  "provider_fails api_key result =
     (api_key = [] \<or>
      (case result of
         RequestFailed \<Rightarrow> True
       | Response status_code body \<Rightarrow> (400 \<le> status_code \<and> status_code < 600) \<or> body = None))"


subsection \<open>Example data\<close>

text \<open>A concrete instance of the library parameters, and the database reached from the empty
  one when Alice registers and then creates a schedule.\<close>

definition example_lib :: lib where
  "example_lib =
     \<lparr>md5 = (\<lambda>s. ''md5-'' @ s), sha256 = (\<lambda>s. ''sha256-'' @ s),
      str_datetime = str_int, int_of_str = (\<lambda>s. None)\<rparr>"

definition alice :: string where
  "alice = md5 example_lib ''alice@example.com''"

definition bob :: string where
  "bob = md5 example_lib ''bob@example.com''"

definition example_db :: db where
  "example_db =
     run example_lib
       [(0, Register \<lparr>email = ''alice@example.com'', password = ''pw123'', full_name = None\<rparr>),
        (10, CreateSchedule \<lparr>schedule_id = None, schedule_name = ''Finals Trip'', match_ids = [201]\<rparr>
               (create_access_token 0 alice))]
       init_database"

definition alice_row :: user_row where
  "alice_row =
     \<lparr>u_user_id = alice, u_email = ''alice@example.com'',
      u_password_hash = sha256 example_lib ''pw123'', u_full_name = None, u_created_at = 0\<rparr>"

definition finals_trip :: schedule_row where
  "finals_trip =
     \<lparr>s_schedule_id = md5 example_lib (alice @ str_int 10), s_user_id = alice,
      s_schedule_name = ''Finals Trip'', s_match_ids = json_dumps [201],
      s_created_at = 10, s_updated_at = 10\<rparr>"

section \<open>Auxiliary facts\<close>

subsection \<open>Tokens\<close>

lemma verify_issued_before_expiry:
  "t < now + 604800 \<Longrightarrow> verify_token t (create_access_token now S) = Inr S"
  by (simp add: verify_token_def create_access_token_def jwt_encode_def jwt_decode_def
      ACCESS_TOKEN_EXPIRE_MINUTES_def)



lemma verify_fresh_token: "0 \<le> t \<Longrightarrow> t < 604800 \<Longrightarrow> verify_token t (create_access_token 0 S) = Inr S"
  by (simp add: verify_issued_before_expiry)

subsection \<open>\<open>json.loads\<close> inverts \<open>json.dumps\<close>\<close>

lemma str_nat_digits: "\<forall>c \<in> set (str_nat n). is_digit c"
proof (induction n rule: str_nat.induct)
  case (1 n)
  show ?case
  proof (cases "n < 10")
    case True
    then show ?thesis by (subst str_nat.simps) (simp add: is_digit_def)
  next
    case False
    have "n mod 10 < 10" by simp
    then have "is_digit (char_of (48 + n mod 10))"
      unfolding is_digit_def by simp
    with 1 False show ?thesis by (subst str_nat.simps) auto
  qed
qed

lemma str_nat_nonempty: "str_nat n \<noteq> []"
  by (subst str_nat.simps) simp

lemma nat_of_digits_snoc:
  "nat_of_digits (ds @ [c]) = 10 * nat_of_digits ds + (of_char c - 48)"
  by (simp add: nat_of_digits_def)

lemma nat_of_digits_str_nat: "nat_of_digits (str_nat n) = n"
proof (induction n rule: str_nat.induct)
  case (1 n)
  show ?case
  proof (cases "n < 10")
    case True
    then show ?thesis by (subst str_nat.simps) (simp add: nat_of_digits_def)
  next
    case False
    have "n mod 10 < 10" by simp
    then have "(of_char (char_of (48 + n mod 10) :: char) :: nat) - 48 = n mod 10"
      by simp
    with 1 False show ?thesis
      by (subst str_nat.simps) (simp add: nat_of_digits_snoc)
  qed
qed

lemma span_digits:
  assumes "\<forall>c \<in> set ds. is_digit c" and "rest = [] \<or> \<not> is_digit (hd rest)"
  shows "takeWhile is_digit (ds @ rest) = ds" and "dropWhile is_digit (ds @ rest) = rest"
proof -
  from assms(2) have t: "takeWhile is_digit rest = []" and d: "dropWhile is_digit rest = rest"
    by (cases rest; simp)+
  from assms(1) show "takeWhile is_digit (ds @ rest) = ds"
    by (simp add: t)
  from assms(1) show "dropWhile is_digit (ds @ rest) = rest"
    by (simp add: d)
qed

lemma parse_int_str_nat:
  assumes "rest = [] \<or> \<not> is_digit (hd rest)"
  shows "parse_int (str_nat n @ rest) = Some (int n, rest)"
proof -
  obtain c cs where s: "str_nat n = c # cs"
    using str_nat_nonempty [of n] by (cases "str_nat n") auto
  have "is_digit c" using str_nat_digits [of n] s by simp
  then have "c \<noteq> CHR ''-''" by (auto simp: is_digit_def)
  moreover have "takeWhile is_digit (str_nat n @ rest) = str_nat n"
    and "dropWhile is_digit (str_nat n @ rest) = rest"
    using span_digits [OF _ assms, of "str_nat n"] str_nat_digits [of n] by auto
  ultimately show ?thesis
    using s by (simp add: parse_int_def nat_of_digits_str_nat [of n, unfolded s])
qed

lemma parse_int_str_int:
  assumes "rest = [] \<or> \<not> is_digit (hd rest)"
  shows "parse_int (str_int i @ rest) = Some (i, rest)"
proof (cases "i < 0")
  case True
  have "takeWhile is_digit (str_nat (nat (- i)) @ rest) = str_nat (nat (- i))"
    and "dropWhile is_digit (str_nat (nat (- i)) @ rest) = rest"
    using span_digits [OF _ assms, of "str_nat (nat (- i))"] str_nat_digits [of "nat (- i)"]
    by auto
  with True show ?thesis
    by (simp add: parse_int_def str_int_def str_nat_nonempty nat_of_digits_str_nat)
next
  case False
  then show ?thesis
    using parse_int_str_nat [OF assms, of "nat i"] by (simp add: str_int_def)
qed

lemma parse_elems_join:
  "xs \<noteq> [] \<Longrightarrow> parse_elems (join '', '' (map str_int xs) @ '']'') = Some xs"
proof (induction xs rule: induct_list012)
  case 1
  then show ?case by simp
next
  case (2 x)
  have "parse_int (str_int x @ '']'') = Some (x, '']'')"
    by (rule parse_int_str_int) (simp add: is_digit_def)
  then show ?case by (subst parse_elems.simps) simp
next
  case (3 x y zs)
  have "parse_int (str_int x @ '', '' @ join '', '' (map str_int (y # zs)) @ '']'')
        = Some (x, '', '' @ join '', '' (map str_int (y # zs)) @ '']'')"
    by (rule parse_int_str_int) (simp add: is_digit_def)
  with 3 show ?case by (subst parse_elems.simps) simp
qed

lemma json_loads_dumps: "json_loads (json_dumps xs) = Inr xs"
proof (cases xs)
  case Nil
  then show ?thesis by (simp add: json_loads_def json_dumps_def)
next
  case (Cons x ys)
  have "join '', '' (map str_int (x # ys)) @ '']'' \<noteq> '']''"
  proof
    assume "join '', '' (map str_int (x # ys)) @ '']'' = '']''"
    then have "join '', '' (map str_int (x # ys)) = []" by simp
    moreover have "str_int x \<noteq> []" by (simp add: str_int_def str_nat_nonempty)
    ultimately show False by (cases ys) auto
  qed
  with Cons parse_elems_join [of xs] show ?thesis
    by (simp add: json_loads_def json_dumps_def)
qed

subsection \<open>The schema's constraints hold in every reachable state\<close>

lemma db_ok_init: "db_ok init_database"
  by (simp add: db_ok_def init_database_def)

lemma db_ok_register: "db_ok d \<Longrightarrow> db_ok (fst (register L now u d))"
  by (auto simp: register_def insert_user_def db_ok_def Let_def split: option.splits)

lemma db_ok_create_schedule: "db_ok d \<Longrightarrow> db_ok (fst (create_schedule L now s tok d))"
  by (auto simp: create_schedule_def insert_schedule_def db_ok_def Let_def json_loads_dumps
      split: sum.splits)

lemma db_ok_delete_schedule: "db_ok d \<Longrightarrow> db_ok (fst (delete_schedule now sid tok d))"
  by (auto simp: delete_schedule_def db_ok_def Let_def distinct_map_filter list_all_iff
      split: sum.splits)

lemma db_ok_register_push_token:
  "db_ok d \<Longrightarrow> db_ok (fst (register_push_token now pt tok d))"
  by (auto simp: register_push_token_def insert_or_replace_push_token_def db_ok_def
      distinct_map_filter split: sum.splits)

lemma db_ok_serve: "db_ok d \<Longrightarrow> db_ok (serve L now rq d)"
  by (cases rq)
    (simp_all add: db_ok_register db_ok_create_schedule db_ok_delete_schedule
      db_ok_register_push_token)

lemma db_ok_run: "db_ok d \<Longrightarrow> db_ok (run L reqs d)"
  by (induction reqs arbitrary: d) (auto simp: db_ok_serve)

subsection \<open>Listing and deleting schedules\<close>

lemma fetch_schedules_all:
  "list_all (\<lambda>r. \<not> isl (json_loads (s_match_ids r))) rows \<Longrightarrow>
   \<exists>es. fetch_schedules rows = Inr es \<and> list_all2 shows_row rows es"
proof (induction rows)
  case Nil
  then show ?case by simp
next
  case (Cons r rows)
  then obtain es where es: "fetch_schedules rows = Inr es" "list_all2 shows_row rows es"
    by auto
  from Cons.prems obtain ids where ids: "json_loads (s_match_ids r) = Inr ids"
    by (cases "json_loads (s_match_ids r)") auto
  let ?e = "\<lparr>e_schedule_id = s_schedule_id r, e_schedule_name = s_schedule_name r,
             e_match_ids = ids, e_created_at = s_created_at r, e_updated_at = s_updated_at r\<rparr>"
  have "shows_row r ?e" using ids by (simp add: shows_row_def)
  moreover have "fetch_schedules (r # rows) = Inr (?e # es)" using es(1) ids by simp
  ultimately show ?case using es(2) by simp
qed

lemma list_all2_member:
  "list_all2 P xs ys \<Longrightarrow> x \<in> set xs \<Longrightarrow> \<exists>y \<in> set ys. P x y"
  by (induction rule: list_all2_induct) auto

lemma get_user_schedules_all:
  assumes "db_ok d" and "verify_token now tok = Inr S"
  shows "\<exists>es. get_user_schedules now U tok d = Inr \<lparr>us_user_id = U, us_schedules = es\<rparr>
            \<and> list_all2 shows_row (filter (\<lambda>r. s_user_id r = U) (schedules d)) es"
proof -
  from assms(1) have "list_all (\<lambda>r. \<not> isl (json_loads (s_match_ids r)))
      (filter (\<lambda>r. s_user_id r = U) (schedules d))"
    by (simp add: db_ok_def list_all_iff)
  from fetch_schedules_all [OF this] obtain es where
    "fetch_schedules (filter (\<lambda>r. s_user_id r = U) (schedules d)) = Inr es"
    "list_all2 shows_row (filter (\<lambda>r. s_user_id r = U) (schedules d)) es"
    by blast
  with assms(2) show ?thesis by (simp add: get_user_schedules_def)
qed

lemma delete_schedule_not_owner:
  assumes "db_ok d" and "row \<in> set (schedules d)" and "s_user_id row = A"
    and "verify_token now tok = Inr B" and "B \<noteq> A"
  shows "delete_schedule now (s_schedule_id row) tok d
         = (d, Inl (HTTPException 404 ''Schedule not found''))"
proof -
  from assms(1) have inj: "inj_on s_schedule_id (set (schedules d))"
    by (simp add: db_ok_def distinct_map)
  have "\<not> (s_schedule_id r = s_schedule_id row \<and> s_user_id r = B)"
    if "r \<in> set (schedules d)" for r
  proof
    assume h: "s_schedule_id r = s_schedule_id row \<and> s_user_id r = B"
    with inj that assms(2) have "r = row" by (auto dest: inj_onD)
    with h assms(3,5) show False by simp
  qed
  then have "filter (\<lambda>r. \<not> (s_schedule_id r = s_schedule_id row \<and> s_user_id r = B)) (schedules d)
             = schedules d"
    by (simp add: filter_id_conv)
  with assms(4) show ?thesis by (simp add: delete_schedule_def)
qed

subsection \<open>Registration and login\<close>

lemma register_existing_email:
  assumes "\<exists>r \<in> set (users d). u_email r = e"
  shows "register L now \<lparr>email = e, password = p, full_name = n\<rparr> d
         = (d, Inl (HTTPException 400 ''Email already registered''))"
proof -
  from assms have "find (\<lambda>r. u_email r = e) (users d) \<noteq> None"
    by (auto simp: find_None_iff)
  then show ?thesis by (auto simp: register_def)
qed

lemma register_success_one_row:
  assumes "register L now u d = (d', Inr tok)"
  shows "length (filter (\<lambda>r. u_email r = email u) (users d')) = 1"
proof -
  from assms have none: "find (\<lambda>r. u_email r = email u) (users d) = None"
    by (auto simp: register_def split: option.splits)
  then have "filter (\<lambda>r. u_email r = email u) (users d) = []"
    by (simp add: find_None_iff filter_empty_conv)
  with assms none show ?thesis
    by (auto simp: register_def insert_user_def Let_def split: if_splits)
qed

lemma register_keeps_email_count:
  assumes "length (filter (\<lambda>r. u_email r = e) (users d)) = 1"
  shows "length (filter (\<lambda>r. u_email r = e) (users (fst (register L now u d)))) = 1"
proof (cases "email u = e")
  case True
  from assms have "filter (\<lambda>r. u_email r = e) (users d) \<noteq> []" by auto
  then have "\<exists>r \<in> set (users d). u_email r = e" by (simp add: filter_empty_conv)
  then have "find (\<lambda>r. u_email r = email u) (users d) \<noteq> None"
    using True by (auto simp: find_None_iff)
  with assms show ?thesis by (auto simp: register_def)
next
  case False
  with assms show ?thesis
    by (auto simp: register_def insert_user_def Let_def split: option.splits)
qed

lemma serve_keeps_email_count:
  assumes "length (filter (\<lambda>r. u_email r = e) (users d)) = 1"
  shows "length (filter (\<lambda>r. u_email r = e) (users (serve L now rq d))) = 1"
proof (cases rq)
  case (Register u)
  with assms show ?thesis by (simp add: register_keeps_email_count)
next
  case (CreateSchedule s tok)
  with assms show ?thesis
    by (auto simp: create_schedule_def insert_schedule_def Let_def split: sum.splits)
next
  case (DeleteSchedule sid tok)
  with assms show ?thesis by (auto simp: delete_schedule_def Let_def split: sum.splits)
next
  case (RegisterPushToken pt tok)
  with assms show ?thesis by (auto simp: register_push_token_def split: sum.splits)
qed (use assms in simp_all)

lemma run_keeps_email_count:
  "length (filter (\<lambda>r. u_email r = e) (users d)) = 1 \<Longrightarrow>
   length (filter (\<lambda>r. u_email r = e) (users (run L reqs d))) = 1"
  by (induction reqs arbitrary: d) (auto simp: serve_keeps_email_count)

lemma login_correct_password:
  assumes "db_ok d" and "row \<in> set (users d)"
    and "u_email row = e" and "u_password_hash row = hash_password L p"
  shows "login L now \<lparr>login_email = e, login_password = p\<rparr> d
         = Inr \<lparr>access_token = create_access_token now (u_user_id row),
                token_type = ''bearer'', user_id = u_user_id row\<rparr>"
proof -
  from assms(1) have inj: "inj_on u_email (set (users d))"
    by (simp add: db_ok_def distinct_map)
  let ?P = "\<lambda>r. u_email r = e \<and> u_password_hash r = hash_password L p"
  from assms(2-4) have "\<exists>r \<in> set (users d). ?P r" by auto
  then obtain r where r: "find ?P (users d) = Some r"
    by (cases "find ?P (users d)") (auto simp: find_None_iff)
  then have "r \<in> set (users d)" and "u_email r = e"
    by (auto simp: find_Some_iff)
  with inj assms(2,3) have "r = row" by (auto dest: inj_onD)
  with r show ?thesis by (simp add: login_def Let_def)
qed

lemma register_new_email:
  assumes "e \<notin> u_email ` set (users d)" and "md5 L e \<notin> u_user_id ` set (users d)"
  shows "snd (register L now \<lparr>email = e, password = p, full_name = n\<rparr> d)
         = Inr \<lparr>access_token = create_access_token now (md5 L e),
                token_type = ''bearer'', user_id = md5 L e\<rparr>"
proof -
  from assms(1) have "find (\<lambda>r. u_email r = e) (users d) = None"
    by (auto simp: find_None_iff)
  with assms show ?thesis
    by (force simp: register_def insert_user_def Let_def)
qed

subsection \<open>Push tokens\<close>

lemma distinct_key_at_most_one:
  "distinct (map f xs) \<Longrightarrow> length (filter (\<lambda>r. f r = k) xs) \<le> 1"
  by (induction xs) (auto simp: filter_empty_conv image_iff)

lemma register_push_token_row:
  assumes "verify_token now tok = Inr uid"
  shows "filter (\<lambda>r. p_user_id r = uid)
           (push_tokens (fst (register_push_token now \<lparr>device_token = dt\<rparr> tok d)))
         = [\<lparr>p_user_id = uid, p_device_token = dt, p_updated_at = now\<rparr>]"
proof -
  have "filter (\<lambda>r. p_user_id r = uid) (filter (\<lambda>r. p_user_id r \<noteq> uid) rows) = []" for rows
    by (simp add: filter_empty_conv)
  with assms show ?thesis
    by (simp add: register_push_token_def insert_or_replace_push_token_def)
qed

subsection \<open>Routes\<close>

lemma resolve_register: "resolve POST ''/api/auth/register'' = Some ''register''"
  by (simp add: resolve_def routes_def path_matches_def segment_matches_def)

subsection \<open>Providers\<close>

lemma response_json_fails:
  "provider_fails k result \<Longrightarrow> k \<noteq> [] \<Longrightarrow> \<exists>e. response_json result = Inl e"
  by (auto simp: provider_fails_def response_json_def split: http_result.splits)

lemma get_travel_time_returns:
  "\<exists>data. get_travel_time k P now a b c d m = Inr data"
  by (simp add: get_travel_time_def split: sum.splits)

lemma get_current_weather_returns:
  "\<exists>data. get_current_weather L k P now a b = Inr data"
  by (simp add: get_current_weather_def split: sum.splits)

lemma get_travel_time_fallback:
  assumes "provider_fails k (P (a, b) (c, d) m k)"
  shows "get_travel_time k P now a b c d m = Inr (mock_traffic_data now)"
proof (cases "k = []")
  case True
  then show ?thesis by (simp add: get_travel_time_def)
next
  case False
  from response_json_fails [OF assms False] obtain e where
    "response_json (P (a, b) (c, d) m k) = Inl e" by blast
  then show ?thesis by (simp add: get_travel_time_def travel_time_try_def and_then_def)
qed

lemma get_current_weather_fallback:
  assumes "provider_fails k (P (a, b) k)"
  shows "get_current_weather L k P now a b = Inr (mock_weather_data now)"
proof (cases "k = []")
  case True
  then show ?thesis by (simp add: get_current_weather_def)
next
  case False
  from response_json_fails [OF assms False] obtain e where
    "response_json (P (a, b) k) = Inl e" by blast
  then show ?thesis by (simp add: get_current_weather_def current_weather_try_def and_then_def)
qed

lemma get_travel_time_api_error:
  assumes "P (a, b) (c, d) m k = Response 200 (Some data)"
    and "subscript data ''status'' = Inr st" and "st \<noteq> JStr ''OK''"
  shows "get_travel_time k P now a b c d m = Inr (mock_traffic_data now)"
  using assms
  by (simp add: get_travel_time_def travel_time_try_def and_then_def response_json_def)






subsection \<open>The example database\<close>

lemma alice_value: "alice = ''md5-alice@example.com''"
  by (simp add: alice_def example_lib_def)

lemma bob_value: "bob = ''md5-bob@example.com''"
  by (simp add: bob_def example_lib_def)

lemma example_db_value:
  "example_db = \<lparr>users = [alice_row], schedules = [finals_trip], push_tokens = []\<rparr>"
proof -
  have "verify_token 10 (create_access_token 0 ''md5-alice@example.com'')
        = Inr ''md5-alice@example.com''"
    by (simp add: verify_fresh_token)
  then show ?thesis
    by (simp add: example_db_def register_def insert_user_def create_schedule_def
        insert_schedule_def init_database_def alice_row_def finals_trip_def
        hash_password_def alice_value example_lib_def Let_def)
qed

lemma db_ok_example: "db_ok example_db"
  unfolding example_db_def by (rule db_ok_run) (rule db_ok_init)

section \<open>Ownership-scoped deletion\<close>

text \<open>
  C1. Let a schedule row owned by \<open>A\<close> be present in a database that satisfies the schema's
  constraints. A delete request for that schedule's id with a token that verifies to some
  \<open>B \<noteq> A\<close> fails with 404 "Schedule not found" (not 403), leaves the database exactly as it
  was, the row is still present, and a listing for \<open>A\<close> still returns it.
\<close>

theorem delete_by_other_owner_not_found:
  assumes "db_ok d" and "row \<in> set (schedules d)" and "s_user_id row = A"
    and "verify_token now tok = Inr B" and "B \<noteq> A"
    and "verify_token now' tok' = Inr S"
  shows "delete_schedule now (s_schedule_id row) tok d
           = (d, Inl (HTTPException 404 ''Schedule not found''))
       \<and> row \<in> set (schedules (fst (delete_schedule now (s_schedule_id row) tok d)))
       \<and> (\<exists>es. get_user_schedules now' A tok'
                   (fst (delete_schedule now (s_schedule_id row) tok d))
                 = Inr \<lparr>us_user_id = A, us_schedules = es\<rparr>
               \<and> (\<exists>e \<in> set es. shows_row row e))"
proof -
  have del: "delete_schedule now (s_schedule_id row) tok d
             = (d, Inl (HTTPException 404 ''Schedule not found''))"
    by (rule delete_schedule_not_owner [OF assms(1-5)])
  from get_user_schedules_all [OF assms(1,6), of A] obtain es where
    es: "get_user_schedules now' A tok' d = Inr \<lparr>us_user_id = A, us_schedules = es\<rparr>"
      "list_all2 shows_row (filter (\<lambda>r. s_user_id r = A) (schedules d)) es"
    by blast
  from assms(2,3) have "row \<in> set (filter (\<lambda>r. s_user_id r = A) (schedules d))" by simp
  from list_all2_member [OF es(2) this] have "\<exists>e \<in> set es. shows_row row e" .
  with del es(1) assms(2) show ?thesis by simp
qed

theorem delete_by_other_owner_not_found_witness:
  "db_ok example_db \<and> finals_trip \<in> set (schedules example_db) \<and> s_user_id finals_trip = alice
   \<and> verify_token 20 (create_access_token 15 bob) = Inr bob \<and> bob \<noteq> alice
   \<and> verify_token 30 (create_access_token 15 alice) = Inr alice
   \<and> delete_schedule 20 (s_schedule_id finals_trip) (create_access_token 15 bob) example_db
       = (example_db, Inl (HTTPException 404 ''Schedule not found''))
   \<and> (\<exists>es. get_user_schedules 30 alice (create_access_token 15 alice) example_db
               = Inr \<lparr>us_user_id = alice, us_schedules = es\<rparr>
             \<and> (\<exists>e \<in> set es. shows_row finals_trip e))"
proof -
  have h1: "db_ok example_db" by (rule db_ok_example)
  have h2: "finals_trip \<in> set (schedules example_db)" by (simp add: example_db_value)
  have h3: "s_user_id finals_trip = alice" by (simp add: finals_trip_def)
  have h4: "verify_token 20 (create_access_token 15 bob) = Inr bob"
    by (simp add: verify_issued_before_expiry)
  have h5: "bob \<noteq> alice" by (simp add: alice_value bob_value)
  have h6: "verify_token 30 (create_access_token 15 alice) = Inr alice"
    by (simp add: verify_issued_before_expiry)
  note t = delete_by_other_owner_not_found [OF h1 h2 h3 h4 h5 h6]
  from t have d: "delete_schedule 20 (s_schedule_id finals_trip) (create_access_token 15 bob)
      example_db = (example_db, Inl (HTTPException 404 ''Schedule not found''))"
    by (rule conjunct1)
  from t show ?thesis using h1 h2 h3 h4 h5 h6 by (simp add: d)
qed

section \<open>Token lifecycle\<close>



section \<open>Duplicate registration\<close>

text \<open>
  C3. If registering email \<open>e\<close> succeeded, then after any sequence of further requests every
  registration for \<open>e\<close>, with any password and display name, fails with 400 "Email already
  registered", changes nothing, and the users table holds exactly one row with email \<open>e\<close>.
\<close>

theorem second_registration_rejected:
  assumes "register L t \<lparr>email = e, password = p, full_name = n\<rparr> d0 = (d1, Inr tok)"
  shows "register L t' \<lparr>email = e, password = p', full_name = n'\<rparr> (run L reqs d1)
           = (run L reqs d1, Inl (HTTPException 400 ''Email already registered''))
       \<and> length (filter (\<lambda>r. u_email r = e) (users (run L reqs d1))) = 1"
proof -
  from register_success_one_row [OF assms]
  have "length (filter (\<lambda>r. u_email r = e) (users d1)) = 1" by simp
  then have one: "length (filter (\<lambda>r. u_email r = e) (users (run L reqs d1))) = 1"
    by (rule run_keeps_email_count)
  then have "filter (\<lambda>r. u_email r = e) (users (run L reqs d1)) \<noteq> []" by auto
  then have "\<exists>r \<in> set (users (run L reqs d1)). u_email r = e"
    by (simp add: filter_empty_conv)
  from register_existing_email [OF this] one show ?thesis by simp
qed

theorem second_registration_rejected_witness:
  "register example_lib 0
     \<lparr>email = ''alice@example.com'', password = ''pw123'', full_name = None\<rparr> init_database
     = (\<lparr>users = [alice_row], schedules = [], push_tokens = []\<rparr>,
        Inr \<lparr>access_token = create_access_token 0 alice, token_type = ''bearer'',
             user_id = alice\<rparr>)
   \<and> register example_lib 5
       \<lparr>email = ''alice@example.com'', password = ''other'', full_name = Some ''Alice''\<rparr>
       \<lparr>users = [alice_row], schedules = [], push_tokens = []\<rparr>
     = (\<lparr>users = [alice_row], schedules = [], push_tokens = []\<rparr>,
        Inl (HTTPException 400 ''Email already registered''))
   \<and> length (filter (\<lambda>r. u_email r = ''alice@example.com'') [alice_row]) = 1"
proof -
  have h: "register example_lib 0
     \<lparr>email = ''alice@example.com'', password = ''pw123'', full_name = None\<rparr> init_database
     = (\<lparr>users = [alice_row], schedules = [], push_tokens = []\<rparr>,
        Inr \<lparr>access_token = create_access_token 0 alice, token_type = ''bearer'',
             user_id = alice\<rparr>)"
    by (simp add: register_def insert_user_def init_database_def alice_row_def
        hash_password_def alice_def example_lib_def Let_def)
  from second_registration_rejected [OF h,
      where t' = 5 and p' = "''other''" and n' = "Some ''Alice''" and reqs = "[]"]
  show ?thesis using h by simp
qed

section \<open>Login failures\<close>

text \<open>
  C4. Let a row with email \<open>e\<close> and the digest of password \<open>p\<close> be stored, in a database
  that satisfies the schema's constraints. Logging in as \<open>e\<close> with a password whose digest
  differs from that of \<open>p\<close> fails, logging in with an email that is not stored fails, and both
  fail with the same error: 401 "Invalid email or password". (The handler compares SHA-256
  digests; distinct passwords are taken to have distinct digests.)
\<close>

theorem login_failures_same_error:
  assumes "db_ok d" and "row \<in> set (users d)"
    and "u_email row = e" and "u_password_hash row = hash_password L p"
    and "hash_password L p' \<noteq> hash_password L p"
    and "e'' \<notin> u_email ` set (users d)"
  shows "login L now \<lparr>login_email = e, login_password = p'\<rparr> d
           = Inl (HTTPException 401 ''Invalid email or password'')
       \<and> login L now' \<lparr>login_email = e'', login_password = p''\<rparr> d
           = Inl (HTTPException 401 ''Invalid email or password'')"
proof -
  from assms(1) have inj: "inj_on u_email (set (users d))"
    by (simp add: db_ok_def distinct_map)
  have "\<not> (u_email r = e \<and> u_password_hash r = hash_password L p')"
    if "r \<in> set (users d)" for r
  proof
    assume h: "u_email r = e \<and> u_password_hash r = hash_password L p'"
    with inj that assms(2,3) have "r = row" by (auto dest: inj_onD)
    with h assms(4,5) show False by simp
  qed
  then have "find (\<lambda>r. u_email r = e \<and> u_password_hash r = hash_password L p') (users d) = None"
    by (simp add: find_None_iff)
  moreover from assms(6)
  have "find (\<lambda>r. u_email r = e'' \<and> u_password_hash r = hash_password L p'') (users d) = None"
    by (auto simp: find_None_iff)
  ultimately show ?thesis by (simp add: login_def)
qed

theorem login_failures_same_error_witness:
  "db_ok example_db \<and> alice_row \<in> set (users example_db)
   \<and> u_email alice_row = ''alice@example.com''
   \<and> u_password_hash alice_row = hash_password example_lib ''pw123''
   \<and> hash_password example_lib ''wrong'' \<noteq> hash_password example_lib ''pw123''
   \<and> ''nobody@example.com'' \<notin> u_email ` set (users example_db)
   \<and> login example_lib 20 \<lparr>login_email = ''alice@example.com'', login_password = ''wrong''\<rparr>
       example_db = Inl (HTTPException 401 ''Invalid email or password'')
   \<and> login example_lib 20 \<lparr>login_email = ''nobody@example.com'', login_password = ''pw123''\<rparr>
       example_db = Inl (HTTPException 401 ''Invalid email or password'')"
proof -
  have h1: "db_ok example_db" by (rule db_ok_example)
  have h2: "alice_row \<in> set (users example_db)" by (simp add: example_db_value)
  have h3: "u_email alice_row = ''alice@example.com''" by (simp add: alice_row_def)
  have h4: "u_password_hash alice_row = hash_password example_lib ''pw123''"
    by (simp add: alice_row_def hash_password_def)
  have h5: "hash_password example_lib ''wrong'' \<noteq> hash_password example_lib ''pw123''"
    by (simp add: hash_password_def example_lib_def)
  have h6: "''nobody@example.com'' \<notin> u_email ` set (users example_db)"
    by (simp add: example_db_value alice_row_def)
  from login_failures_same_error [OF h1 h2 h3 h4 h5 h6,
      where now = 20 and now' = 20 and p'' = "''pw123''"]
  show ?thesis using h1 h2 h3 h4 h5 h6 by simp
qed

section \<open>Create, then list\<close>



section \<open>Push-token registrations\<close>

text \<open>
  C6. Starting from a database that satisfies the schema's constraints, after any sequence of
  requests the push-token table holds at most one row for any identity; and after two
  registrations by the same identity, the rows of that identity are exactly one row, holding
  the device token of the second registration.
\<close>

theorem push_token_one_row_latest:
  assumes "db_ok d" and "verify_token t1 tok1 = Inr uid" and "verify_token t2 tok2 = Inr uid"
  shows "length (filter (\<lambda>r. p_user_id r = u) (push_tokens (run L reqs d))) \<le> 1
       \<and> filter (\<lambda>r. p_user_id r = uid)
           (push_tokens (fst (register_push_token t2 \<lparr>device_token = dt2\<rparr> tok2
              (fst (register_push_token t1 \<lparr>device_token = dt1\<rparr> tok1 d)))))
         = [\<lparr>p_user_id = uid, p_device_token = dt2, p_updated_at = t2\<rparr>]"
proof -
  from db_ok_run [OF assms(1), of L reqs]
  have "distinct (map p_user_id (push_tokens (run L reqs d)))" by (simp add: db_ok_def)
  then have "length (filter (\<lambda>r. p_user_id r = u) (push_tokens (run L reqs d))) \<le> 1"
    by (rule distinct_key_at_most_one)
  with register_push_token_row [OF assms(3)] show ?thesis by simp
qed

theorem push_token_one_row_latest_witness:
  "db_ok init_database \<and> verify_token 1 (create_access_token 0 alice) = Inr alice
   \<and> verify_token 2 (create_access_token 0 alice) = Inr alice
   \<and> length (filter (\<lambda>r. p_user_id r = alice)
         (push_tokens (run example_lib
            [(1, RegisterPushToken \<lparr>device_token = ''device-1''\<rparr> (create_access_token 0 alice)),
             (2, RegisterPushToken \<lparr>device_token = ''device-2''\<rparr> (create_access_token 0 alice))]
            init_database))) \<le> 1
   \<and> filter (\<lambda>r. p_user_id r = alice)
       (push_tokens (fst (register_push_token 2 \<lparr>device_token = ''device-2''\<rparr>
          (create_access_token 0 alice)
          (fst (register_push_token 1 \<lparr>device_token = ''device-1''\<rparr>
             (create_access_token 0 alice) init_database)))))
     = [\<lparr>p_user_id = alice, p_device_token = ''device-2'', p_updated_at = 2\<rparr>]"
proof -
  have h1: "db_ok init_database" by (rule db_ok_init)
  have h2: "verify_token 1 (create_access_token 0 alice) = Inr alice"
    by (simp add: verify_fresh_token)
  have h3: "verify_token 2 (create_access_token 0 alice) = Inr alice"
    by (simp add: verify_fresh_token)
  from push_token_one_row_latest [OF h1 h2 h3, where u = alice and L = example_lib
      and reqs = "[(1, RegisterPushToken \<lparr>device_token = ''device-1''\<rparr> (create_access_token 0 alice)),
             (2, RegisterPushToken \<lparr>device_token = ''device-2''\<rparr> (create_access_token 0 alice))]"
      and ?dt1.0 = "''device-1''" and ?dt2.0 = "''device-2''"]
  show ?thesis using h1 h2 h3 by simp
qed

section \<open>Provider failures\<close>

text \<open>
  C7. For all coordinates, \<open>get_travel_time\<close> and \<open>get_current_weather\<close> return a value and
  raise nothing, whatever the provider does. When the provider is unconfigured (no API key),
  unreachable, answers with an error status or with a body that is not JSON, the value is the
  fallback payload: every field is a fixed constant except \<open>updated_at\<close>, which is the
  instant of the call.
\<close>

theorem provider_failures_absorbed:
  assumes "provider_fails tk (TP (a, b) (c, d) m tk)" and "provider_fails wk (WP (lat, lon) wk)"
  shows "get_travel_time tk TP now a b c d m = Inr ((mock_traffic_data 0)\<lparr>t_updated_at := now\<rparr>)
       \<and> get_current_weather L wk WP now lat lon = Inr ((mock_weather_data 0)\<lparr>w_updated_at := now\<rparr>)
       \<and> (\<exists>data. get_travel_time tk' TP' now' a' b' c' d' m' = Inr data)
       \<and> (\<exists>data. get_current_weather L' wk' WP' now' lat' lon' = Inr data)"
proof -
  have "mock_traffic_data now = (mock_traffic_data 0)\<lparr>t_updated_at := now\<rparr>"
    by (simp add: mock_traffic_data_def)
  moreover have "mock_weather_data now = (mock_weather_data 0)\<lparr>w_updated_at := now\<rparr>"
    by (simp add: mock_weather_data_def)
  ultimately show ?thesis
    using get_travel_time_fallback [of tk TP a b c d m now] assms(1)
      get_current_weather_fallback [of wk WP lat lon L now] assms(2)
      get_travel_time_returns get_current_weather_returns
    by simp
qed

text \<open>The fallback payload is not one fixed constant: two calls at different instants, both
  without an API key, return different values.\<close>

theorem fallback_constant_counterexample:
  "get_travel_time [] (\<lambda>_ _ _ _. RequestFailed) 0 0 0 0 0 ''driving''
   \<noteq> get_travel_time [] (\<lambda>_ _ _ _. RequestFailed) 1 0 0 0 0 ''driving''"
  by (simp add: get_travel_time_def mock_traffic_data_def)

theorem provider_failures_absorbed_witness:
  "provider_fails ''key'' RequestFailed \<and> provider_fails [] (Response 200 None)
   \<and> get_travel_time ''key'' (\<lambda>_ _ _ _. RequestFailed) 7 0 0 1 1 ''driving''
       = Inr ((mock_traffic_data 0)\<lparr>t_updated_at := 7\<rparr>)
   \<and> get_current_weather example_lib [] (\<lambda>_ _. Response 200 None) 7 0 0
       = Inr ((mock_weather_data 0)\<lparr>w_updated_at := 7\<rparr>)"
proof -
  have h1: "provider_fails ''key'' ((\<lambda>_ _ _ _. RequestFailed) (0::rat, 0::rat) (1::rat, 1::rat) ''driving'' ''key'')"
    by (simp add: provider_fails_def)
  have h2: "provider_fails [] ((\<lambda>_ _. Response 200 None) (0::rat, 0::rat) [])"
    by (simp add: provider_fails_def)
  from provider_failures_absorbed [where tk = "''key''" and TP = "\<lambda>_ _ _ _. RequestFailed"
      and a = 0 and b = 0 and c = 1 and d = 1 and m = "''driving''" and wk = "[]"
      and WP = "\<lambda>_ _. Response 200 None" and lat = 0 and lon = 0 and now = 7 and L = example_lib]
  show ?thesis using h1 h2 by simp
qed

section \<open>The registration endpoint\<close>

text \<open>
  C8. The registration endpoint is exposed at \<open>POST /api/auth/register\<close>. It takes
  \<open>email\<close>, \<open>password\<close> and an optional \<open>full_name\<close>, and on success returns
  exactly \<open>access_token\<close>, \<open>token_type\<close> (which is \<open>bearer\<close>) and \<open>user_id\<close>, where the
  token verifies to that \<open>user_id\<close>.
\<close>

theorem register_endpoint:
  assumes "register L now \<lparr>email = e, password = p, full_name = n\<rparr> d = (d', Inr response)"
  shows "resolve POST ''/api/auth/register'' = Some ''register''
       \<and> response = \<lparr>access_token = create_access_token now (md5 L e),
                      token_type = ''bearer'', user_id = md5 L e\<rparr>
       \<and> verify_token now (access_token response) = Inr (user_id response)"
proof -
  have none: "find (\<lambda>r. u_email r = e) (users d) = None"
  proof (cases "find (\<lambda>r. u_email r = e) (users d)")
    case (Some r)
    with assms show ?thesis by (simp add: register_def)
  qed simp
  have r: "response = \<lparr>access_token = create_access_token now (md5 L e),
                         token_type = ''bearer'', user_id = md5 L e\<rparr>"
    using assms none by (simp add: register_def Let_def split: sum.splits)
  have v: "verify_token now (create_access_token now (md5 L e)) = Inr (md5 L e)"
    by (simp add: verify_issued_before_expiry)
  show ?thesis
    unfolding r using v by (simp add: resolve_register)
qed

text \<open>Nothing is routed at \<open>POST /auth/register\<close>.\<close>

theorem register_path_counterexample: "resolve POST ''/auth/register'' = None"
  by (simp add: resolve_def routes_def path_matches_def segment_matches_def)

theorem register_endpoint_witness:
  "register example_lib 0
     \<lparr>email = ''alice@example.com'', password = ''pw123'', full_name = None\<rparr> init_database
     = (\<lparr>users = [alice_row], schedules = [], push_tokens = []\<rparr>,
        Inr \<lparr>access_token = create_access_token 0 alice, token_type = ''bearer'',
             user_id = alice\<rparr>)
   \<and> resolve POST ''/api/auth/register'' = Some ''register''
   \<and> verify_token 0 (create_access_token 0 alice) = Inr alice"
proof -
  have h: "register example_lib 0
     \<lparr>email = ''alice@example.com'', password = ''pw123'', full_name = None\<rparr> init_database
     = (\<lparr>users = [alice_row], schedules = [], push_tokens = []\<rparr>,
        Inr \<lparr>access_token = create_access_token 0 alice, token_type = ''bearer'',
             user_id = alice\<rparr>)"
    by (simp add: register_def insert_user_def init_database_def alice_row_def
        hash_password_def alice_def example_lib_def Let_def)
  from register_endpoint [OF h]
  have a: "resolve POST ''/api/auth/register'' = Some ''register''" by (rule conjunct1)
  have v: "verify_token 0 (create_access_token 0 alice) = Inr alice"
    by (simp add: verify_issued_before_expiry)
  from h a v show ?thesis by (intro conjI)
qed

section \<open>Traffic level\<close>



section \<open>Listing is not restricted to the owner\<close>

text \<open>
  C10. In a database that satisfies the schema's constraints, for every user id \<open>U\<close> in the
  path and every token that verifies, to whatever subject \<open>S\<close>, the listing succeeds and
  returns exactly the rows whose owner is \<open>U\<close>; the answer is the same for any other
  verifying token, so the subject plays no part in it.
\<close>

theorem list_not_restricted_to_owner:
  assumes "db_ok d" and "verify_token now tok = Inr S" and "verify_token now' tok' = Inr S'"
  shows "(\<exists>es. get_user_schedules now U tok d = Inr \<lparr>us_user_id = U, us_schedules = es\<rparr>
              \<and> list_all2 shows_row (filter (\<lambda>r. s_user_id r = U) (schedules d)) es)
       \<and> get_user_schedules now' U tok' d = get_user_schedules now U tok d"
proof -
  have "get_user_schedules now' U tok' d = get_user_schedules now U tok d"
    using assms(2,3) by (simp add: get_user_schedules_def)
  with get_user_schedules_all [OF assms(1,2), of U] show ?thesis by simp
qed

theorem list_not_restricted_to_owner_witness:
  "db_ok example_db \<and> verify_token 20 (create_access_token 15 bob) = Inr bob
   \<and> verify_token 30 (create_access_token 15 alice) = Inr alice
   \<and> (\<exists>es. get_user_schedules 20 alice (create_access_token 15 bob) example_db
               = Inr \<lparr>us_user_id = alice, us_schedules = es\<rparr>
             \<and> list_all2 shows_row [finals_trip] es)
   \<and> get_user_schedules 30 alice (create_access_token 15 alice) example_db
     = get_user_schedules 20 alice (create_access_token 15 bob) example_db"
proof -
  have h1: "db_ok example_db" by (rule db_ok_example)
  have h2: "verify_token 20 (create_access_token 15 bob) = Inr bob"
    by (simp add: verify_issued_before_expiry)
  have h3: "verify_token 30 (create_access_token 15 alice) = Inr alice"
    by (simp add: verify_issued_before_expiry)
  have rows: "filter (\<lambda>r. s_user_id r = alice) (schedules example_db) = [finals_trip]"
    by (simp add: example_db_value finals_trip_def)
  from list_not_restricted_to_owner [OF h1 h2 h3, of alice]
  show ?thesis using h1 h2 h3 by (simp add: rows)
qed

end
